theory Spec2Isabelle
  imports Complex_Main
begin

section \<open>The training wrapper of the whisper-guided voice conversion model\<close>

text \<open>
  This theory embeds \<^verbatim>\<open>src/utils/wrapper.py\<close> (class \<^verbatim>\<open>TrainingWrapper\<close>):
  the segment sampler \<^verbatim>\<open>random_segment\<close> and the loss assembler \<^verbatim>\<open>compute_loss\<close>.
  Every exception the source can raise is a value of \<open>error\<close>, every random draw is read
  from an explicit tape, and the collaborators of the wrapped model are parameters.
\<close>

subsection \<open>Errors and configuration\<close>

datatype error =
    ValueError_high_le_zero
    \<comment> \<open>\<^verbatim>\<open>np.random.randint(high)\<close>: some entry of \<open>high\<close> is not positive\<close>
  | ValueError_stack_empty
    \<comment> \<open>\<^verbatim>\<open>np.stack([])\<close>: need at least one array to stack\<close>
  | ValueError_stack_shape
    \<comment> \<open>\<^verbatim>\<open>np.stack\<close>: all input arrays must have the same shape\<close>
  | RuntimeError_randint_range
    \<comment> \<open>\<^verbatim>\<open>torch.randint(high, ...)\<close>: expects from < to\<close>
  | RuntimeError_uniform_dtype
    \<comment> \<open>\<^verbatim>\<open>torch.rand_like\<close> on a tensor whose dtype is not floating point\<close>

record train_config =
  seglen :: int
  null_prob :: real

record model_config =
  steps :: int

record config =
  train :: train_config
  model :: model_config

subsection \<open>The segment sampler\<close>

text \<open>
  \<^verbatim>\<open>n[a:b]\<close> on a one-dimensional array: a negative bound counts from the end, and
  both bounds are clipped to the array.
\<close>

definition py_slice :: "'a list \<Rightarrow> int \<Rightarrow> int \<Rightarrow> 'a list" where
  "py_slice xs a b =
     (let n = int (length xs);
          lo = (if a < 0 then max (a + n) 0 else min a n);
          hi = (if b < 0 then max (b + n) 0 else min b n)
      in take (nat (hi - lo)) (drop (nat lo) xs))"

text \<open>
  \<^verbatim>\<open>np.random.randint(high)\<close> with an array argument and no second bound draws, for
  each entry, an integer of the half-open range from 0 up to and excluding that entry,
  and raises \<^verbatim>\<open>ValueError\<close> when some entry is not positive. The draw of row \<open>i\<close> is
  read from the tape \<open>draw\<close> and reduced into the range, so that the tapes reach every
  value numpy can return and no other.
\<close>

definition np_random_randint :: "(nat \<Rightarrow> nat) \<Rightarrow> int list \<Rightarrow> error + int list" where
  "np_random_randint draw high =
     (if list_ex (\<lambda>h. h \<le> 0) high then Inl ValueError_high_le_zero
      else Inr (map (\<lambda>i. int (draw i) mod (high ! i)) [0..<length high]))"

text \<open>\<^verbatim>\<open>np.stack\<close> of a list of one-dimensional arrays.\<close>

fun np_stack :: "'a list list \<Rightarrow> error + 'a list list" where
  "np_stack [] = Inl ValueError_stack_empty"
| "np_stack (r # rs) =
     (if list_all (\<lambda>x. length x = length r) rs then Inr (r # rs)
      else Inl ValueError_stack_shape)"

text \<open>
  Line 37 of the source: \<^verbatim>\<open>start = np.random.randint(lengths - seglen)\<close>. The
  lengths and the segment length are sample counts, far inside the 64-bit range, so the
  subtraction is the one of the integers.
\<close>

definition segment_start :: "config \<Rightarrow> (nat \<Rightarrow> nat) \<Rightarrow> int list \<Rightarrow> error + int list" where
  "segment_start cfg draw lengths =
     np_random_randint draw (map (\<lambda>l. l - seglen (train cfg)) lengths)"

text \<open>
  Lines 35 to 40: the rows are paired with the offsets by \<^verbatim>\<open>zip\<close>, each row is
  sliced from its offset, and the slices are stacked.
\<close>

definition random_segment ::
  "config \<Rightarrow> (nat \<Rightarrow> nat) \<Rightarrow> 'a list list \<Rightarrow> int list \<Rightarrow> error + 'a list list" where
  "random_segment cfg draw speeches lengths =
     (case segment_start cfg draw lengths of
        Inl e \<Rightarrow> Inl e
      | Inr start \<Rightarrow>
          np_stack (map (\<lambda>(n, s). py_slice n s (s + seglen (train cfg))) (zip speeches start)))"

subsection \<open>Tensors and floating-point values\<close>

text \<open>
  A tensor of the loss assembler is read through its index function, at the shape the
  source documents for it (\<^verbatim>\<open>[B, seglen]\<close>, \<^verbatim>\<open>[B]\<close>, \<^verbatim>\<open>[B, spk]\<close>,
  \<^verbatim>\<open>[1 + S]\<close>); a collaborator that returns another shape is outside this model.
  The entries are real numbers, so rounding is not modelled. The values that finite
  inputs can still produce, an infinity from the logarithm of zero and a nan from the
  mean of no element, are kept in \<open>fval\<close>.
\<close>

type_synonym vec = "nat \<Rightarrow> real"
type_synonym mat = "nat \<Rightarrow> nat \<Rightarrow> real"

record tensor2 =
  nrows :: nat
  ncols :: nat
  entry :: mat

datatype fval = Fin real | PInf | NInf | NaN

fun fneg :: "fval \<Rightarrow> fval" where
  "fneg (Fin x) = Fin (- x)"
| "fneg PInf = NInf"
| "fneg NInf = PInf"
| "fneg NaN = NaN"

fun fadd :: "fval \<Rightarrow> fval \<Rightarrow> fval" where
  "fadd (Fin x) (Fin y) = Fin (x + y)"
| "fadd NaN y = NaN"
| "fadd x NaN = NaN"
| "fadd PInf NInf = NaN"
| "fadd NInf PInf = NaN"
| "fadd PInf y = PInf"
| "fadd x PInf = PInf"
| "fadd NInf y = NInf"
| "fadd x NInf = NInf"

definition fsub :: "fval \<Rightarrow> fval \<Rightarrow> fval" where
  "fsub x y = fadd x (fneg y)"

definition torch_log :: "real \<Rightarrow> fval" where
  "torch_log x = (if x < 0 then NaN else if x = 0 then NInf else Fin (ln x))"

definition torch_sigmoid :: "real \<Rightarrow> real" where
  "torch_sigmoid x = 1 / (1 + exp (- x))"

definition torch_clamp_min :: "real \<Rightarrow> real \<Rightarrow> real" where
  "torch_clamp_min x lo = max x lo"

text \<open>\<^verbatim>\<open>x.mean()\<close> of a \<open>B\<close> by \<open>L\<close> tensor; the mean of no element is nan.\<close>

definition torch_mean :: "nat \<Rightarrow> nat \<Rightarrow> mat \<Rightarrow> fval" where
  "torch_mean B L x =
     (if B * L = 0 then NaN
      else Fin ((\<Sum>i\<leftarrow>[0..<B]. \<Sum>j\<leftarrow>[0..<L]. x i j) / real (B * L)))"

text \<open>
  The speaker ids: a one-dimensional tensor with its dtype. The docstring of
  \<^verbatim>\<open>compute_loss\<close> gives \<^verbatim>\<open>torch.long\<close>, which is \<open>Int64\<close>.
\<close>

datatype int_dtype = UInt8 | Int8 | Int16 | Int32 | Int64
datatype float_dtype = Float16 | BFloat16 | Float32 | Float64

datatype sid_tensor =
    IntTensor int_dtype "int list"
  | FloatTensor float_dtype "real list"

fun sid_size :: "sid_tensor \<Rightarrow> nat" where
  "sid_size (IntTensor d ids) = length ids"
| "sid_size (FloatTensor d ids) = length ids"

text \<open>The tapes the random draws of one call of \<^verbatim>\<open>compute_loss\<close> are read from.\<close>

record rng =
  randint_tape :: "nat \<Rightarrow> nat"
  randn_tape :: "nat \<Rightarrow> nat \<Rightarrow> real"
  rand_tape :: "nat \<Rightarrow> real"

text \<open>
  \<^verbatim>\<open>torch.randint(high, (B,))\<close>: \<open>B\<close> integers from 0 up to and excluding \<open>high\<close>;
  it raises when \<open>high\<close> is not positive.
\<close>

definition torch_randint :: "(nat \<Rightarrow> nat) \<Rightarrow> int \<Rightarrow> nat \<Rightarrow> error + int list" where
  "torch_randint tape high B =
     (if high \<le> 0 then Inl RuntimeError_randint_range
      else Inr (map (\<lambda>i. int (tape i) mod high) [0..<B]))"

text \<open>
  \<^verbatim>\<open>torch.rand_like(t)\<close> samples the uniform distribution on the half-open unit
  interval in the dtype of \<open>t\<close>. The sampler exists for floating-point dtypes only: on
  an integer tensor the call raises \<^verbatim>\<open>RuntimeError\<close>. A draw is the fractional
  part of the tape's entry, which ranges over the whole interval.
\<close>

fun torch_rand_like :: "(nat \<Rightarrow> real) \<Rightarrow> sid_tensor \<Rightarrow> error + vec" where
  "torch_rand_like tape (IntTensor d ids) = Inl RuntimeError_uniform_dtype"
| "torch_rand_like tape (FloatTensor d ids) = Inr (\<lambda>i. frac (tape i))"

text \<open>
  The wrapped model (\<^verbatim>\<open>WhisperGuidedVC\<close>, not part of this file): its collaborators
  are the fields, \<open>spk\<close> is the width of a speaker embedding and \<open>sched_steps\<close> the
  number \<open>S\<close> of the schedule, whose log-SNR vector has \<open>1 + S\<close> entries.
\<close>

record wgvc =
  diffusion :: "tensor2 \<Rightarrow> int list \<Rightarrow> mat \<times> vec"
  spkembed :: "sid_tensor \<Rightarrow> mat"
  nullspk :: vec
  spk :: nat
  denoise :: "tensor2 \<Rightarrow> mat \<Rightarrow> int list \<Rightarrow> mat"
  scheduler :: "vec \<times> vec"
  sched_steps :: nat

subsection \<open>The loss assembler\<close>

text \<open>Lines 52 to 55: the batch size and the diffusion steps.\<close>

definition draw_steps :: "config \<Rightarrow> rng \<Rightarrow> sid_tensor \<Rightarrow> error + int list" where
  "draw_steps cfg r sid = torch_randint (randint_tape r) (steps (model cfg)) (sid_size sid)"

text \<open>Line 63: \<^verbatim>\<open>null = torch.rand_like(sid) < self.config.train.null_prob\<close>.\<close>

definition guidance_null :: "config \<Rightarrow> rng \<Rightarrow> sid_tensor \<Rightarrow> error + (nat \<Rightarrow> bool)" where
  "guidance_null cfg r sid =
     (case torch_rand_like (rand_tape r) sid of
        Inl e \<Rightarrow> Inl e
      | Inr u \<Rightarrow> Inr (\<lambda>i. u i < null_prob (train cfg)))"

text \<open>Line 64: \<^verbatim>\<open>spkembed[null] = self.model.nullspk\<close>, the rows under the mask.\<close>

definition masked_assign :: "mat \<Rightarrow> (nat \<Rightarrow> bool) \<Rightarrow> vec \<Rightarrow> mat" where
  "masked_assign emb null v = (\<lambda>i. if null i then v else emb i)"

definition l2norm :: "nat \<Rightarrow> vec \<Rightarrow> real" where
  "l2norm E v = sqrt (\<Sum>j\<leftarrow>[0..<E]. (v j)\<^sup>2)"

text \<open>
  \<^verbatim>\<open>F.normalize(x, dim=-1)\<close> with its defaults \<^verbatim>\<open>p=2\<close> and \<^verbatim>\<open>eps=1e-12\<close>: a row
  is divided by its norm clamped from below by \<open>eps\<close>.
\<close>

definition normalize_row :: "nat \<Rightarrow> vec \<Rightarrow> vec" where
  "normalize_row E v = (\<lambda>j. v j / torch_clamp_min (l2norm E v) (1 / 10 ^ 12))"

definition F_normalize :: "nat \<Rightarrow> mat \<Rightarrow> mat" where
  "F_normalize E x = (\<lambda>i. normalize_row E (x i))"

text \<open>Lines 61 to 66: the speaker embedding that is handed to the denoiser.\<close>

definition conditioned_spkembed :: "wgvc \<Rightarrow> config \<Rightarrow> rng \<Rightarrow> sid_tensor \<Rightarrow> error + mat" where
  "conditioned_spkembed m cfg r sid =
     (let emb = spkembed m sid in
      case guidance_null cfg r sid of
        Inl e \<Rightarrow> Inl e
      | Inr null \<Rightarrow> Inr (F_normalize (spk m) (masked_assign emb null (nullspk m))))"

text \<open>Line 70: \<^verbatim>\<open>noise_estim = (base - denoised).abs().mean()\<close>.\<close>

definition noise_estimation :: "nat \<Rightarrow> nat \<Rightarrow> mat \<Rightarrow> mat \<Rightarrow> fval" where
  "noise_estimation B L base denoised = torch_mean B L (\<lambda>i j. \<bar>base i j - denoised i j\<bar>)"

text \<open>
  Lines 77 to 79, on the vector \<open>alphas_bar\<close> of \<open>1 + S\<close> entries:
  \<^verbatim>\<open>alphas_bar[-1]\<close> is the entry \<open>S\<close> and \<^verbatim>\<open>alphas_bar[0]\<close> the entry 0.
\<close>

definition schedule_prior :: "nat \<Rightarrow> vec \<Rightarrow> fval" where
  "schedule_prior S alphas_bar =
     fadd (torch_log (torch_clamp_min (1 - alphas_bar S) (1 / 10 ^ 7)))
          (torch_log (torch_clamp_min (alphas_bar 0) (1 / 10 ^ 7)))"

record aux =
  aux_base :: mat
  aux_denoised :: mat
  aux_alphas_bar :: vec

text \<open>
  \<^verbatim>\<open>compute_loss\<close>, lines 52 to 89. The result is the loss, the dictionary of the
  two named losses and the arrays kept for inspection.
\<close>

definition compute_loss ::
  "wgvc \<Rightarrow> config \<Rightarrow> rng \<Rightarrow> sid_tensor \<Rightarrow> tensor2
     \<Rightarrow> error + (fval \<times> (string \<rightharpoonup> fval) \<times> aux)" where
  "compute_loss m cfg r sid speeches =
     (let bsize = sid_size sid in
      case draw_steps cfg r sid of
        Inl e \<Rightarrow> Inl e
      | Inr stp \<Rightarrow>
          (let (base_mean, base_std) = diffusion m speeches stp;
               base = (\<lambda>i j. base_mean i j + randn_tape r i j * base_std i)
           in case conditioned_spkembed m cfg r sid of
                Inl e \<Rightarrow> Inl e
              | Inr emb \<Rightarrow>
                  (let denoised = denoise m speeches emb stp;
                       noise_estim = noise_estimation bsize (ncols speeches) base denoised;
                       (logsnr, unused) = scheduler m;
                       alphas_bar = (\<lambda>k. torch_sigmoid (logsnr k));
                       schedule_loss = schedule_prior (sched_steps m) alphas_bar;
                       loss = fsub noise_estim schedule_loss
                   in Inr (loss,
                           [''noise-estim'' \<mapsto> noise_estim, ''schedule-loss'' \<mapsto> schedule_loss],
                           \<lparr>aux_base = base, aux_denoised = denoised,
                            aux_alphas_bar = alphas_bar\<rparr>))))"

subsection \<open>The reading of the specification and concrete inputs\<close>

text \<open>
  The mean absolute difference of two \<open>B\<close> by \<open>L\<close> tensors over all elements and batch
  rows, as the specification words the noise-estimation loss.
\<close>

definition mean_abs_diff :: "nat \<Rightarrow> nat \<Rightarrow> mat \<Rightarrow> mat \<Rightarrow> real" where
  "mean_abs_diff B L x y =
     (\<Sum>i\<leftarrow>[0..<B]. \<Sum>j\<leftarrow>[0..<L]. \<bar>x i j - y i j\<bar>) / (real B * real L)"

text \<open>Concrete inputs, at which the theorems below are evaluated.\<close>

definition seg_config :: "int \<Rightarrow> config" where
  "seg_config L =
     \<lparr>train = \<lparr>seglen = L, null_prob = 0\<rparr>, model = \<lparr>steps = 1\<rparr>\<rparr>"

text \<open>
  A model whose forward kernel returns the segments with standard deviation 0, whose
  embedding table and null embedding are given, and whose denoiser answers, in every
  entry of row \<open>i\<close>, the L2 norm of row \<open>i\<close> of the embedding it is handed.
\<close>

definition probe_model :: "mat \<Rightarrow> vec \<Rightarrow> vec \<Rightarrow> wgvc" where
  "probe_model table null logsnr =
     \<lparr>diffusion = (\<lambda>sp stp. (entry sp, \<lambda>i. 0)),
      spkembed = (\<lambda>sid. table),
      nullspk = null,
      spk = 2,
      denoise = (\<lambda>sp emb stp i j. l2norm 2 (emb i)),
      scheduler = (logsnr, \<lambda>k. 0),
      sched_steps = 3\<rparr>"

definition probe_config :: "real \<Rightarrow> config" where
  "probe_config p = \<lparr>train = \<lparr>seglen = 2, null_prob = p\<rparr>, model = \<lparr>steps = 1000\<rparr>\<rparr>"

definition probe_rng :: rng where
  "probe_rng = \<lparr>randint_tape = (\<lambda>i. 1234), randn_tape = (\<lambda>i j. 1), rand_tape = (\<lambda>i. 1 / 4)\<rparr>"

definition probe_speeches :: tensor2 where
  "probe_speeches = \<lparr>nrows = 1, ncols = 2, entry = (\<lambda>i j. 3)\<rparr>"

definition unit_row :: vec where
  "unit_row = (\<lambda>j. if j = 0 then 1 else 0)"

definition two_row :: vec where
  "two_row = (\<lambda>j. if j = 1 then 2 else 0)"

definition edge_alphas_bar :: vec where
  "edge_alphas_bar = (\<lambda>k. if k = 0 then 0 else 1)"

section \<open>Properties of the segment sampler\<close>

lemma py_slice_window:
  assumes "0 \<le> s" and "0 \<le> L" and "s + L \<le> int (length xs)"
  shows "py_slice xs s (s + L) = take (nat L) (drop (nat s) xs)"
  using assms by (simp add: py_slice_def Let_def min_def)

lemma np_stack_same_length:
  assumes "xs \<noteq> []" and "\<forall>x\<in>set xs. length x = n"
  shows "np_stack xs = Inr xs"
  using assms by (cases xs) (auto simp: list_all_iff)

lemma segment_start_long:
  assumes "\<forall>l\<in>set lengths. seglen (train cfg) < l"
  shows "segment_start cfg draw lengths =
           Inr (map (\<lambda>i. int (draw i) mod (lengths ! i - seglen (train cfg))) [0..<length lengths])"
proof -
  have "\<not> list_ex (\<lambda>h. h \<le> 0) (map (\<lambda>l. l - seglen (train cfg)) lengths)"
    using assms by (auto simp: list_ex_iff)
  then show ?thesis
    by (simp add: segment_start_def np_random_randint_def)
qed

lemma map_zip_nth:
  assumes "length xs = length ys"
  shows "map (\<lambda>(n, s). f n s) (zip xs ys) = map (\<lambda>i. f (xs ! i) (ys ! i)) [0..<length ys]"
  using assms by (intro nth_equalityI) simp_all

lemma segment_start_short:
  assumes "i < length lengths" and "lengths ! i \<le> seglen (train cfg)"
  shows "segment_start cfg draw lengths = Inl ValueError_high_le_zero"
proof -
  have "lengths ! i \<in> set lengths"
    using assms(1) by simp
  then have "\<exists>l\<in>set lengths. l - seglen (train cfg) \<le> 0"
    using assms(2) by force
  then show ?thesis
    by (simp add: segment_start_def np_random_randint_def list_ex_iff)
qed

text \<open>
  Claim C9. When some row is shorter than the segment length, \<open>random_segment\<close> does not
  return a batch: the draw of the offsets raises \<^verbatim>\<open>ValueError\<close>, whatever the other
  rows, the signals and the random tape are, and nothing in the function catches it.
\<close>

theorem random_segment_short_row_fails:
  assumes "i < length lengths" and "lengths ! i < seglen (train cfg)"
  shows "random_segment cfg draw speeches lengths = Inl ValueError_high_le_zero"
proof -
  have "segment_start cfg draw lengths = Inl ValueError_high_le_zero"
    using assms segment_start_short [of i lengths cfg draw] by simp
  then show ?thesis
    by (simp add: random_segment_def)
qed

theorem random_segment_short_row_fails_witness:
  "random_segment (seg_config 50) (\<lambda>i. 7) [[1, 2, 3 :: int], [4, 5, 6]] [80, 30]
     = Inl ValueError_high_le_zero"
proof -
  have "(1::nat) < length [80, 30 :: int]"
    by simp
  moreover have "[80, 30 :: int] ! 1 < seglen (train (seg_config 50))"
    by (simp add: seg_config_def)
  ultimately show ?thesis
    by (rule random_segment_short_row_fails)
qed

text \<open>
  Claim C3, as the code has it. For a batch of at least one row in which every row is
  strictly longer than the segment length (and holds at least \<open>lengths ! i\<close> samples),
  the offsets are drawn from the half-open range from 0 up to and excluding
  \<open>lengths ! i - seglen\<close>: every offset lies in that range, every value of that range
  is the offset of row \<open>i\<close> for some outcome of the draw, and output row \<open>i\<close> is the
  window of \<open>seglen\<close> samples of input row \<open>i\<close> that starts at its offset.
\<close>

theorem random_segment_window:
  assumes shape: "length speeches = length lengths" "lengths \<noteq> []"
    and seg: "0 \<le> seglen (train cfg)"
    and long: "\<forall>i<length lengths. seglen (train cfg) < lengths ! i
                  \<and> lengths ! i \<le> int (length (speeches ! i))"
  shows "\<exists>start. segment_start cfg draw lengths = Inr start
           \<and> length start = length lengths
           \<and> (\<forall>i<length lengths. 0 \<le> start ! i \<and> start ! i < lengths ! i - seglen (train cfg))
           \<and> random_segment cfg draw speeches lengths =
               Inr (map (\<lambda>i. take (nat (seglen (train cfg))) (drop (nat (start ! i)) (speeches ! i)))
                      [0..<length lengths])
           \<and> (\<forall>i<length lengths. \<forall>k. 0 \<le> k \<and> k < lengths ! i - seglen (train cfg) \<longrightarrow>
                 (\<exists>draw' start'. segment_start cfg draw' lengths = Inr start' \<and> start' ! i = k))"
proof -
  let ?L = "seglen (train cfg)"
  let ?B = "length lengths"
  define start where "start = map (\<lambda>i. int (draw i) mod (lengths ! i - ?L)) [0..<?B]"
  have all_long: "\<forall>l\<in>set lengths. ?L < l"
    using long by (auto simp: in_set_conv_nth)
  have st: "segment_start cfg draw lengths = Inr start"
    unfolding start_def using all_long by (rule segment_start_long)
  have len: "length start = ?B"
    by (simp add: start_def)
  have range: "0 \<le> start ! i \<and> start ! i < lengths ! i - ?L" if "i < ?B" for i
    using that long by (simp add: start_def)
  have fits: "start ! i + ?L \<le> int (length (speeches ! i))" if "i < ?B" for i
    using range [OF that] long that by force
  have slice: "py_slice (speeches ! i) (start ! i) (start ! i + ?L)
                 = take (nat ?L) (drop (nat (start ! i)) (speeches ! i))" if "i < ?B" for i
  proof (rule py_slice_window)
    show "0 \<le> start ! i" using range [OF that] by simp
    show "0 \<le> ?L" by (rule seg)
    show "start ! i + ?L \<le> int (length (speeches ! i))" by (rule fits [OF that])
  qed
  let ?rows = "map (\<lambda>i. take (nat ?L) (drop (nat (start ! i)) (speeches ! i))) [0..<?B]"
  have rows: "map (\<lambda>(n, s). py_slice n s (s + ?L)) (zip speeches start) = ?rows"
    using slice len shape(1) by (simp add: map_zip_nth)
  have "length x = nat ?L" if mem: "x \<in> set ?rows" for x
  proof -
    obtain i where i: "i < ?B" and x: "x = take (nat ?L) (drop (nat (start ! i)) (speeches ! i))"
      using mem by auto
    show ?thesis
      using fits [OF i] range [OF i] seg unfolding x length_take length_drop by linarith
  qed
  moreover have "?rows \<noteq> []"
    using shape(2) by simp
  ultimately have "np_stack ?rows = Inr ?rows"
    using np_stack_same_length [of ?rows "nat ?L"] by blast
  then have out: "random_segment cfg draw speeches lengths = Inr ?rows"
    by (simp add: random_segment_def st rows)
  have reach: "\<exists>draw' start'. segment_start cfg draw' lengths = Inr start' \<and> start' ! i = k"
    if "i < ?B" and "0 \<le> k \<and> k < lengths ! i - ?L" for i k
  proof -
    have "segment_start cfg (\<lambda>_. nat k) lengths =
            Inr (map (\<lambda>i. int (nat k) mod (lengths ! i - ?L)) [0..<?B])"
      using all_long by (rule segment_start_long)
    moreover have "map (\<lambda>i. int (nat k) mod (lengths ! i - ?L)) [0..<?B] ! i = k"
      using that by simp
    ultimately show ?thesis by blast
  qed
  show ?thesis
    using st len range out reach by blast
qed

theorem random_segment_window_witness:
  "segment_start (seg_config 2) (\<lambda>i. 5) [4, 5] = Inr [1, 2]
   \<and> random_segment (seg_config 2) (\<lambda>i. 5) [[10, 20, 30, 40 :: int], [1, 2, 3, 4, 5]] [4, 5]
       = Inr [[20, 30], [3, 4]]"
proof -
  let ?sp = "[[10, 20, 30, 40 :: int], [1, 2, 3, 4, 5]]"
  let ?ln = "[4, 5 :: int]"
  have long: "\<forall>i<length ?ln. seglen (train (seg_config 2)) < ?ln ! i
                \<and> ?ln ! i \<le> int (length (?sp ! i))"
    by (simp add: seg_config_def less_Suc_eq)
  have seg: "0 \<le> seglen (train (seg_config 2))"
    by (simp add: seg_config_def)
  have st: "segment_start (seg_config 2) (\<lambda>i. 5) ?ln = Inr [1, 2]"
    by (simp add: segment_start_def np_random_randint_def seg_config_def)
  obtain start where
    "segment_start (seg_config 2) (\<lambda>i. 5) ?ln = Inr start"
    "random_segment (seg_config 2) (\<lambda>i. 5) ?sp ?ln =
       Inr (map (\<lambda>i. take (nat (seglen (train (seg_config 2)))) (drop (nat (start ! i)) (?sp ! i)))
              [0..<length ?ln])"
    using random_segment_window [of ?sp ?ln "seg_config 2" "\<lambda>i. 5", OF _ _ seg long] by auto
  then show ?thesis
    using st by (simp add: seg_config_def)
qed

text \<open>
  The claim C3 as the specification states it fails at the upper endpoint. With
  \<open>seglen = 2\<close> and one row of length 3 the inclusive range would hold the offset 1,
  whose window is the last two samples; no outcome of the draw produces it.
\<close>

theorem random_segment_upper_endpoint_unreachable:
  "\<not> (\<exists>draw. random_segment (seg_config 2) draw [[10, 20, 30 :: int]] [3] = Inr [[20, 30]])"
  by (simp add: random_segment_def segment_start_def np_random_randint_def seg_config_def
      py_slice_def)

text \<open>
  Claim C4 at a concrete input: one row whose length equals the segment length. The
  claim promises the offset 0 and the row itself as the output; the code raises
  \<^verbatim>\<open>ValueError\<close>, since the range of the draw is empty.
\<close>

theorem random_segment_exact_length_raises:
  "random_segment (seg_config 2) draw [[10, 20 :: int]] [2] = Inl ValueError_high_le_zero"
  by (simp add: random_segment_def segment_start_def np_random_randint_def seg_config_def)

section \<open>Properties of the loss assembler\<close>

subsection \<open>What a returning call computed\<close>

lemma compute_loss_Inr:
  assumes "compute_loss m cfg r sid speeches = Inr (loss, losses, aux)"
  obtains stp emb where
    "draw_steps cfg r sid = Inr stp"
    "conditioned_spkembed m cfg r sid = Inr emb"
    "aux_base aux = (\<lambda>i j. fst (diffusion m speeches stp) i j
                       + randn_tape r i j * snd (diffusion m speeches stp) i)"
    "aux_denoised aux = denoise m speeches emb stp"
    "aux_alphas_bar aux = (\<lambda>k. torch_sigmoid (fst (scheduler m) k))"
    "losses = [''noise-estim'' \<mapsto>
                 noise_estimation (sid_size sid) (ncols speeches) (aux_base aux) (aux_denoised aux),
               ''schedule-loss'' \<mapsto> schedule_prior (sched_steps m) (aux_alphas_bar aux)]"
    "loss = fsub (noise_estimation (sid_size sid) (ncols speeches) (aux_base aux) (aux_denoised aux))
                 (schedule_prior (sched_steps m) (aux_alphas_bar aux))"
  using assms
  by (auto simp: compute_loss_def Let_def split_beta split: sum.splits)

lemma compute_loss_IntTensor:
  "compute_loss m cfg r (IntTensor d ids) speeches =
     Inl (if steps (model cfg) \<le> 0 then RuntimeError_randint_range else RuntimeError_uniform_dtype)"
  by (simp add: compute_loss_def draw_steps_def torch_randint_def conditioned_spkembed_def
      guidance_null_def Let_def split_beta)

lemma conditioned_spkembed_FloatTensor:
  "conditioned_spkembed m cfg r (FloatTensor d ids) =
     Inr (\<lambda>i. normalize_row (spk m)
                (if frac (rand_tape r i) < null_prob (train cfg) then nullspk m
                 else spkembed m (FloatTensor d ids) i))"
  by (simp add: conditioned_spkembed_def guidance_null_def F_normalize_def masked_assign_def Let_def)

lemma conditioned_spkembed_Inr:
  assumes "conditioned_spkembed m cfg r sid = Inr emb"
  shows "emb = (\<lambda>i. normalize_row (spk m)
                (if frac (rand_tape r i) < null_prob (train cfg) then nullspk m
                 else spkembed m sid i))"
  using assms
  by (cases sid) (auto simp: conditioned_spkembed_def guidance_null_def F_normalize_def masked_assign_def Let_def)

lemma schedule_prior_Fin:
  "schedule_prior S ab =
     Fin (ln (max (1 - ab S) (1 / 10 ^ 7)) + ln (max (ab 0) (1 / 10 ^ 7)))"
proof -
  have "0 < max (1 - ab S) (1 / 10 ^ 7 :: real)" "0 < max (ab 0) (1 / 10 ^ 7 :: real)"
    by (simp_all add: less_max_iff_disj)
  then show ?thesis
    by (simp add: schedule_prior_def torch_log_def torch_clamp_min_def)
qed

lemma sum_list_map_nonneg:
  fixes f :: "'a \<Rightarrow> real"
  assumes "\<And>x. x \<in> set xs \<Longrightarrow> 0 \<le> f x"
  shows "0 \<le> (\<Sum>x\<leftarrow>xs. f x)"
  using assms by (induction xs) simp_all

lemma sum_list_map_zero:
  fixes f :: "'a \<Rightarrow> real"
  assumes "\<And>x. x \<in> set xs \<Longrightarrow> f x = 0"
  shows "(\<Sum>x\<leftarrow>xs. f x) = 0"
  using assms by (induction xs) simp_all

lemma sum_sq_scale:
  "(\<Sum>j\<leftarrow>xs. (v j / c)\<^sup>2) = (\<Sum>j\<leftarrow>xs. (v j)\<^sup>2) / c\<^sup>2" for c :: real
  by (induction xs) (simp_all add: power_divide add_divide_distrib)

lemma l2norm_nonneg: "0 \<le> l2norm E v"
  by (simp add: l2norm_def sum_list_map_nonneg)

lemma l2norm_scale:
  assumes "0 < c"
  shows "l2norm E (\<lambda>j. v j / c) = l2norm E v / c"
  using assms by (simp add: l2norm_def sum_sq_scale real_sqrt_divide)

lemma l2norm_normalize_row:
  "l2norm E (normalize_row E v) =
     (if 1 / 10 ^ 12 \<le> l2norm E v then 1 else l2norm E v * 10 ^ 12)"
proof -
  let ?c = "max (l2norm E v) (1 / 10 ^ 12)"
  have pos: "0 < ?c"
    by (simp add: less_max_iff_disj)
  have "l2norm E (normalize_row E v) = l2norm E v / ?c"
    unfolding normalize_row_def torch_clamp_min_def using pos by (rule l2norm_scale)
  then show ?thesis
    by (auto simp: max_def)
qed

lemma torch_mean_nonempty:
  assumes "0 < B" "0 < L"
  shows "noise_estimation B L x y = Fin (mean_abs_diff B L x y)"
  using assms by (simp add: noise_estimation_def torch_mean_def mean_abs_diff_def)

lemma mean_abs_diff_nonneg: "0 \<le> mean_abs_diff B L x y"
  unfolding mean_abs_diff_def
  by (intro divide_nonneg_nonneg mult_nonneg_nonneg sum_list_map_nonneg) simp_all

lemma mean_abs_diff_zero:
  assumes "\<And>i j. i < B \<Longrightarrow> j < L \<Longrightarrow> y i j = x i j"
  shows "mean_abs_diff B L x y = 0"
proof -
  have inner: "(\<Sum>j\<leftarrow>[0..<L]. \<bar>x i j - y i j\<bar>) = 0" if "i < B" for i
    using assms [OF that] by (intro sum_list_map_zero) simp
  have "(\<Sum>i\<leftarrow>[0..<B]. \<Sum>j\<leftarrow>[0..<L]. \<bar>x i j - y i j\<bar>) = 0"
  proof (rule sum_list_map_zero)
    fix i assume "i \<in> set [0..<B]"
    then show "(\<Sum>j\<leftarrow>[0..<L]. \<bar>x i j - y i j\<bar>) = 0"
      using inner by simp
  qed
  then show ?thesis
    by (simp add: mean_abs_diff_def)
qed


lemma compute_loss_FloatTensor:
  assumes "0 < steps (model cfg)"
  shows "\<exists>loss losses aux. compute_loss m cfg r (FloatTensor d ids) speeches = Inr (loss, losses, aux)"
  using assms
  by (simp add: compute_loss_def draw_steps_def torch_randint_def conditioned_spkembed_FloatTensor
      Let_def split_beta)

lemma l2norm_unit_row: "l2norm 2 unit_row = 1"
  by (simp add: l2norm_def unit_row_def upt_rec)

text \<open>
  Claim C1. Whenever \<open>compute_loss\<close> returns, its loss is the noise-estimation loss
  minus the schedule loss, the two values it also stores under \<^verbatim>\<open>'noise-estim'\<close> and
  \<^verbatim>\<open>'schedule-loss'\<close>. For a batch with at least one row and one sample per row both
  are finite, the loss is their difference as real numbers, and the noise-estimation
  loss is the mean absolute difference of the noised reference and the prediction over
  all rows and elements.
\<close>

theorem compute_loss_combines:
  assumes "compute_loss m cfg r sid speeches = Inr (loss, losses, aux)"
  shows "\<exists>ne sl. losses ''noise-estim'' = Some ne \<and> losses ''schedule-loss'' = Some sl
           \<and> loss = fsub ne sl
           \<and> (0 < sid_size sid \<and> 0 < ncols speeches \<longrightarrow>
                (\<exists>a b. ne = Fin a \<and> sl = Fin b \<and> loss = Fin (a - b)
                   \<and> a = mean_abs_diff (sid_size sid) (ncols speeches)
                           (aux_base aux) (aux_denoised aux)))"
proof -
  let ?ne = "noise_estimation (sid_size sid) (ncols speeches) (aux_base aux) (aux_denoised aux)"
  let ?sl = "schedule_prior (sched_steps m) (aux_alphas_bar aux)"
  from assms have ls: "losses = [''noise-estim'' \<mapsto> ?ne, ''schedule-loss'' \<mapsto> ?sl]"
    and l: "loss = fsub ?ne ?sl"
    by (auto elim!: compute_loss_Inr)
  have "losses ''noise-estim'' = Some ?ne" "losses ''schedule-loss'' = Some ?sl"
    by (simp_all add: ls)
  moreover have "\<exists>a b. ?ne = Fin a \<and> ?sl = Fin b \<and> fsub ?ne ?sl = Fin (a - b)
        \<and> a = mean_abs_diff (sid_size sid) (ncols speeches) (aux_base aux) (aux_denoised aux)"
    if "0 < sid_size sid \<and> 0 < ncols speeches"
    using that by (simp add: torch_mean_nonempty schedule_prior_Fin fsub_def)
  ultimately show ?thesis
    using l by blast
qed

theorem compute_loss_combines_witness:
  "\<exists>loss losses aux.
     compute_loss (probe_model (\<lambda>i. unit_row) unit_row (\<lambda>k. 0)) (probe_config (1 / 2)) probe_rng
       (FloatTensor Float32 [0]) probe_speeches = Inr (loss, losses, aux)
     \<and> losses ''noise-estim'' = Some (Fin 2)
     \<and> losses ''schedule-loss'' = Some (Fin (ln (1 / 2) + ln (1 / 2)))
     \<and> loss = Fin (2 - (ln (1 / 2) + ln (1 / 2)))"
proof -
  let ?m = "probe_model (\<lambda>i. unit_row) unit_row (\<lambda>k. 0)"
  let ?sid = "FloatTensor Float32 [0]"
  have "0 < steps (model (probe_config (1 / 2)))"
    by (simp add: probe_config_def)
  then obtain loss losses aux where
    h: "compute_loss ?m (probe_config (1 / 2)) probe_rng ?sid probe_speeches = Inr (loss, losses, aux)"
    using compute_loss_FloatTensor by blast
  obtain stp emb where
    emb: "conditioned_spkembed ?m (probe_config (1 / 2)) probe_rng ?sid = Inr emb"
    and base: "aux_base aux = (\<lambda>i j. fst (diffusion ?m probe_speeches stp) i j
                       + randn_tape probe_rng i j * snd (diffusion ?m probe_speeches stp) i)"
    and den: "aux_denoised aux = denoise ?m probe_speeches emb stp"
    and ab: "aux_alphas_bar aux = (\<lambda>k. torch_sigmoid (fst (scheduler ?m) k))"
    using h by (rule compute_loss_Inr)
  have "emb = (\<lambda>i. normalize_row 2 unit_row)"
    using conditioned_spkembed_Inr [OF emb] by (simp add: probe_model_def cong: if_cong)
  then have den': "aux_denoised aux = (\<lambda>i j. 1)"
    by (simp add: den probe_model_def l2norm_normalize_row l2norm_unit_row)
  have base': "aux_base aux = (\<lambda>i j. 3)"
    by (simp add: base probe_model_def probe_speeches_def)
  have a: "mean_abs_diff (sid_size ?sid) (ncols probe_speeches) (aux_base aux) (aux_denoised aux) = 2"
    by (simp add: mean_abs_diff_def base' den' probe_speeches_def upt_rec)
  have sl: "schedule_prior (sched_steps ?m) (aux_alphas_bar aux) = Fin (ln (1 / 2) + ln (1 / 2))"
    by (simp add: schedule_prior_Fin ab probe_model_def torch_sigmoid_def)
  have pos: "0 < sid_size ?sid \<and> 0 < ncols probe_speeches"
    by (simp add: probe_speeches_def)
  obtain ne sl' a' b' where
    "losses ''noise-estim'' = Some ne" "losses ''schedule-loss'' = Some sl'"
    "ne = Fin a'" "sl' = Fin b'" "loss = Fin (a' - b')"
    "a' = mean_abs_diff (sid_size ?sid) (ncols probe_speeches) (aux_base aux) (aux_denoised aux)"
    using compute_loss_combines [OF h] pos by blast
  moreover have "sl' = schedule_prior (sched_steps ?m) (aux_alphas_bar aux)"
    using h \<open>losses ''schedule-loss'' = Some sl'\<close> by (auto elim!: compute_loss_Inr)
  ultimately show ?thesis
    using h a sl by auto
qed


text \<open>
  Claim C2. Whenever \<open>compute_loss\<close> returns, \<open>alphas_bar\<close> is the sigmoid of the
  log-SNR vector that the scheduler gives without any argument, and the schedule loss
  is the logarithm of one minus its last entry plus the logarithm of its first entry,
  each clamped from below by \<open>1e-7\<close>.
\<close>

theorem schedule_loss_formula:
  assumes "compute_loss m cfg r sid speeches = Inr (loss, losses, aux)"
  shows "aux_alphas_bar aux = (\<lambda>k. torch_sigmoid (fst (scheduler m) k))
         \<and> losses ''schedule-loss'' =
             Some (Fin (ln (max (1 - aux_alphas_bar aux (sched_steps m)) (1 / 10 ^ 7))
                        + ln (max (aux_alphas_bar aux 0) (1 / 10 ^ 7))))"
proof -
  from assms have "aux_alphas_bar aux = (\<lambda>k. torch_sigmoid (fst (scheduler m) k))"
    and "losses ''schedule-loss'' = Some (schedule_prior (sched_steps m) (aux_alphas_bar aux))"
    by (auto elim!: compute_loss_Inr)
  then show ?thesis
    by (simp add: schedule_prior_Fin)
qed

theorem schedule_loss_formula_witness:
  "\<exists>loss losses aux.
     compute_loss (probe_model (\<lambda>i. unit_row) unit_row (\<lambda>k. 0)) (probe_config 0) probe_rng
       (FloatTensor Float32 [0, 1]) probe_speeches = Inr (loss, losses, aux)
     \<and> aux_alphas_bar aux = (\<lambda>k. 1 / 2)
     \<and> losses ''schedule-loss'' = Some (Fin (ln (1 / 2) + ln (1 / 2)))"
proof -
  let ?m = "probe_model (\<lambda>i. unit_row) unit_row (\<lambda>k. 0)"
  have "0 < steps (model (probe_config 0))"
    by (simp add: probe_config_def)
  then obtain loss losses aux where
    h: "compute_loss ?m (probe_config 0) probe_rng (FloatTensor Float32 [0, 1]) probe_speeches
          = Inr (loss, losses, aux)"
    using compute_loss_FloatTensor by blast
  have ab: "aux_alphas_bar aux = (\<lambda>k. 1 / 2)"
    using schedule_loss_formula [OF h] by (simp add: probe_model_def torch_sigmoid_def)
  have "losses ''schedule-loss'' = Some (Fin (ln (1 / 2) + ln (1 / 2)))"
    using schedule_loss_formula [OF h] unfolding ab by simp
  then show ?thesis
    using h ab by blast
qed

text \<open>
  Claim C7. For every \<open>alphas_bar\<close> whose first and last entries lie between 0 and 1,
  the bounds included, the schedule loss is a finite value, neither an infinity nor a
  nan; it lies between twice the logarithm of \<open>1e-7\<close> and 0. The lower bound is met at
  the degenerate schedule whose first entry is 0 and whose last entry is 1.
\<close>

theorem schedule_prior_finite:
  assumes "0 \<le> alphas_bar 0" "alphas_bar 0 \<le> 1" "0 \<le> alphas_bar S" "alphas_bar S \<le> 1"
  shows "\<exists>v. schedule_prior S alphas_bar = Fin v \<and> 2 * ln (1 / 10 ^ 7) \<le> v \<and> v \<le> 0"
proof -
  let ?a = "max (1 - alphas_bar S) (1 / 10 ^ 7)"
  let ?b = "max (alphas_bar 0) (1 / 10 ^ 7)"
  have a: "1 / 10 ^ 7 \<le> ?a" "?a \<le> 1" and b: "1 / 10 ^ 7 \<le> ?b" "?b \<le> 1"
    using assms by simp_all
  have "ln (1 / 10 ^ 7) \<le> ln ?a" "ln (1 / 10 ^ 7) \<le> ln ?b"
    using a(1) b(1) by (simp_all del: ln_divide_pos)
  moreover have "ln ?a \<le> 0" "ln ?b \<le> 0"
    using a b by (simp_all add: ln_le_zero_iff less_max_iff_disj)
  ultimately have "2 * ln (1 / 10 ^ 7) \<le> ln ?a + ln ?b \<and> ln ?a + ln ?b \<le> 0"
    by linarith
  then show ?thesis
    by (simp add: schedule_prior_Fin)
qed

theorem schedule_prior_finite_witness:
  "schedule_prior 3 edge_alphas_bar = Fin (2 * ln (1 / 10 ^ 7))"
proof -
  have e: "edge_alphas_bar 0 = 0" "edge_alphas_bar 3 = 1"
    by (simp_all add: edge_alphas_bar_def)
  obtain v where "schedule_prior 3 edge_alphas_bar = Fin v"
    using schedule_prior_finite [of edge_alphas_bar 3] e by auto
  moreover have "schedule_prior 3 edge_alphas_bar = Fin (2 * ln (1 / 10 ^ 7))"
    by (simp add: schedule_prior_Fin e)
  ultimately show ?thesis by simp
qed

text \<open>
  Claim C8. Line 70 on two tensors of the shape \<open>B\<close> by \<open>L\<close> with at least one row
  and one column: the noise-estimation loss is a finite value that is not negative, and
  it is 0 when the prediction equals the noised reference in every entry.
\<close>

theorem noise_estimation_nonneg:
  assumes "0 < B" "0 < L"
  shows "\<exists>v. noise_estimation B L base denoised = Fin v \<and> 0 \<le> v
           \<and> ((\<forall>i<B. \<forall>j<L. denoised i j = base i j) \<longrightarrow> v = 0)"
proof -
  have "noise_estimation B L base denoised = Fin (mean_abs_diff B L base denoised)"
    using assms by (rule torch_mean_nonempty)
  moreover have "0 \<le> mean_abs_diff B L base denoised"
    by (rule mean_abs_diff_nonneg)
  moreover have "mean_abs_diff B L base denoised = 0"
    if "\<forall>i<B. \<forall>j<L. denoised i j = base i j"
    using that by (intro mean_abs_diff_zero) simp
  ultimately show ?thesis by blast
qed

theorem noise_estimation_nonneg_witness:
  "noise_estimation 1 2 (\<lambda>i j. 3) (\<lambda>i j. 1) = Fin 2
   \<and> noise_estimation 1 2 (\<lambda>i j. 3) (\<lambda>i j. 3) = Fin 0"
proof -
  have pos: "(0::nat) < 1" "(0::nat) < 2" by simp_all
  obtain v where v: "noise_estimation 1 2 (\<lambda>i j. 3) (\<lambda>i j. 3) = Fin v"
    "(\<forall>i<1. \<forall>j<2. (3::real) = 3) \<longrightarrow> v = 0"
    using noise_estimation_nonneg [OF pos, of "\<lambda>i j. 3" "\<lambda>i j. 3"] by blast
  have "noise_estimation 1 2 (\<lambda>i j. 3) (\<lambda>i j. 1) = Fin 2"
    by (simp add: noise_estimation_def torch_mean_def upt_rec)
  then show ?thesis
    using v by simp
qed

text \<open>
  Claim C10. For speaker ids of an integer dtype, \<^verbatim>\<open>torch.long\<close> included,
  \<open>compute_loss\<close> never returns a loss, whatever the ids, the model, the segments, the
  random draws and \<open>null_prob\<close> are. With a positive number of diffusion steps the
  error is the one of the mask draw of line 63.
\<close>

theorem compute_loss_long_sid_raises:
  "(\<exists>e. compute_loss m cfg r (IntTensor d ids) speeches = Inl e)
   \<and> (0 < steps (model cfg) \<longrightarrow>
        compute_loss m cfg r (IntTensor d ids) speeches = Inl RuntimeError_uniform_dtype)"
  by (simp add: compute_loss_IntTensor)

theorem compute_loss_long_sid_raises_witness:
  "compute_loss (probe_model (\<lambda>i. unit_row) unit_row (\<lambda>k. 0)) (probe_config (1 / 2)) probe_rng
     (IntTensor Int64 [0, 3, 1]) probe_speeches = Inl RuntimeError_uniform_dtype"
proof -
  have "0 < steps (model (probe_config (1 / 2)))"
    by (simp add: probe_config_def)
  then show ?thesis
    using compute_loss_long_sid_raises by blast
qed


text \<open>
  Claim C5, as the code has it. Whenever \<open>compute_loss\<close> returns, the denoiser was
  handed the embedding of lines 61 to 66, and each of its rows has the L2 norm 1 when
  the row it was normalized from, replaced or not, had a norm of at least \<open>1e-12\<close>;
  a row of smaller norm is divided by \<open>1e-12\<close> instead, so its norm is the old one
  times \<open>1e12\<close>, which is less than 1.
\<close>

theorem conditioned_rows_norm:
  assumes "compute_loss m cfg r sid speeches = Inr (loss, losses, aux)"
  shows "\<exists>stp emb. draw_steps cfg r sid = Inr stp
           \<and> conditioned_spkembed m cfg r sid = Inr emb
           \<and> aux_denoised aux = denoise m speeches emb stp
           \<and> (\<forall>i. l2norm (spk m) (emb i) =
                 (let row = (if frac (rand_tape r i) < null_prob (train cfg) then nullspk m
                             else spkembed m sid i)
                  in if 1 / 10 ^ 12 \<le> l2norm (spk m) row then 1
                     else l2norm (spk m) row * 10 ^ 12))"
proof -
  obtain stp emb where st: "draw_steps cfg r sid = Inr stp"
    and emb: "conditioned_spkembed m cfg r sid = Inr emb"
    and den: "aux_denoised aux = denoise m speeches emb stp"
    using assms by (rule compute_loss_Inr)
  have "l2norm (spk m) (emb i) =
          (let row = (if frac (rand_tape r i) < null_prob (train cfg) then nullspk m
                      else spkembed m sid i)
           in if 1 / 10 ^ 12 \<le> l2norm (spk m) row then 1 else l2norm (spk m) row * 10 ^ 12)" for i
    unfolding conditioned_spkembed_Inr [OF emb] Let_def by (rule l2norm_normalize_row)
  then show ?thesis
    using st emb den by blast
qed

theorem conditioned_rows_norm_witness:
  "\<exists>loss losses aux.
     compute_loss (probe_model (\<lambda>i. unit_row) two_row (\<lambda>k. 0)) (probe_config (1 / 2)) probe_rng
       (FloatTensor Float32 [0]) probe_speeches = Inr (loss, losses, aux)
     \<and> aux_denoised aux 0 0 = 1"
proof -
  let ?m = "probe_model (\<lambda>i. unit_row) two_row (\<lambda>k. 0)"
  let ?c = "probe_config (1 / 2)"
  have "0 < steps (model ?c)"
    by (simp add: probe_config_def)
  then obtain loss losses aux where
    h: "compute_loss ?m ?c probe_rng (FloatTensor Float32 [0]) probe_speeches = Inr (loss, losses, aux)"
    using compute_loss_FloatTensor by blast
  obtain stp emb where den: "aux_denoised aux = denoise ?m probe_speeches emb stp"
    and n: "\<forall>i. l2norm (spk ?m) (emb i) =
                 (let row = (if frac (rand_tape probe_rng i) < null_prob (train ?c) then nullspk ?m
                             else spkembed ?m (FloatTensor Float32 [0]) i)
                  in if 1 / 10 ^ 12 \<le> l2norm (spk ?m) row then 1
                     else l2norm (spk ?m) row * 10 ^ 12)"
    using conditioned_rows_norm [OF h] by blast
  have "l2norm 2 two_row = 2"
    by (simp add: l2norm_def two_row_def upt_rec)
  then have "l2norm 2 (emb 0) = 1"
    using n [rule_format, of 0]
    by (simp add: probe_model_def probe_config_def probe_rng_def)
  then have "aux_denoised aux 0 0 = 1"
    by (simp add: den probe_model_def)
  then show ?thesis
    using h by blast
qed

text \<open>
  The claim C5 as the specification states it fails for a row of zeros: with
  \<open>null_prob = 0\<close> the row is not replaced, the normalization divides it by \<open>1e-12\<close>,
  and the row that reaches the denoiser has the norm 0. The denoiser of \<open>probe_model\<close>
  reports that norm.
\<close>

theorem zero_row_keeps_norm_zero:
  "(case compute_loss (probe_model (\<lambda>i j. 0) unit_row (\<lambda>k. 0)) (probe_config 0) probe_rng
           (FloatTensor Float32 [0]) probe_speeches of
      Inl e \<Rightarrow> False
    | Inr (loss, losses, aux) \<Rightarrow> aux_denoised aux 0 0 = 0)
   \<and> (case conditioned_spkembed (probe_model (\<lambda>i j. 0) unit_row (\<lambda>k. 0)) (probe_config 0)
             probe_rng (FloatTensor Float32 [0]) of
        Inl e \<Rightarrow> False
      | Inr emb \<Rightarrow> l2norm 2 (emb 0) = 0)"
  by (simp add: compute_loss_def draw_steps_def torch_randint_def conditioned_spkembed_FloatTensor
      probe_model_def probe_config_def probe_rng_def normalize_row_def l2norm_def Let_def)

text \<open>
  Claim C6. Whenever \<open>compute_loss\<close> returns, row \<open>i\<close> of the embedding handed to the
  denoiser is the normalized null embedding exactly when the uniform draw of row \<open>i\<close>
  alone, a value of the half-open unit interval, lies below \<open>null_prob\<close>, and the
  normalized lookup of the speaker otherwise. The draws that replace a row are those of
  the interval from 0 to \<open>null_prob\<close>. With \<open>null_prob = 1\<close> every row is the
  normalized null embedding; with \<open>null_prob = 0\<close> no row is replaced.
\<close>

theorem guidance_dropout_rows:
  assumes "compute_loss m cfg r sid speeches = Inr (loss, losses, aux)"
  shows "\<exists>stp emb. draw_steps cfg r sid = Inr stp
           \<and> conditioned_spkembed m cfg r sid = Inr emb
           \<and> aux_denoised aux = denoise m speeches emb stp
           \<and> (\<forall>i. 0 \<le> frac (rand_tape r i) \<and> frac (rand_tape r i) < 1
                 \<and> emb i = normalize_row (spk m)
                     (if frac (rand_tape r i) < null_prob (train cfg) then nullspk m
                      else spkembed m sid i))
           \<and> (1 \<le> null_prob (train cfg) \<longrightarrow> (\<forall>i. emb i = normalize_row (spk m) (nullspk m)))
           \<and> (null_prob (train cfg) \<le> 0 \<longrightarrow>
                 (\<forall>i. emb i = normalize_row (spk m) (spkembed m sid i)))"
proof -
  obtain stp emb where st: "draw_steps cfg r sid = Inr stp"
    and emb: "conditioned_spkembed m cfg r sid = Inr emb"
    and den: "aux_denoised aux = denoise m speeches emb stp"
    using assms by (rule compute_loss_Inr)
  note row = conditioned_spkembed_Inr [OF emb]
  have u: "0 \<le> frac (rand_tape r i) \<and> frac (rand_tape r i) < 1" for i
    by (simp add: frac_lt_1)
  have each: "emb i = normalize_row (spk m)
                (if frac (rand_tape r i) < null_prob (train cfg) then nullspk m
                 else spkembed m sid i)" for i
    by (simp add: row)
  have all_null: "emb i = normalize_row (spk m) (nullspk m)" if "1 \<le> null_prob (train cfg)" for i
  proof -
    have "frac (rand_tape r i) < null_prob (train cfg)"
      using u [of i] that by linarith
    then show ?thesis by (simp add: each)
  qed
  have none_null: "emb i = normalize_row (spk m) (spkembed m sid i)"
    if "null_prob (train cfg) \<le> 0" for i
  proof -
    have "\<not> frac (rand_tape r i) < null_prob (train cfg)"
      using u [of i] that by linarith
    then show ?thesis by (simp add: each)
  qed
  show ?thesis
    using st emb den u each all_null none_null by blast
qed

theorem guidance_dropout_rows_witness:
  "(\<exists>loss losses aux.
      compute_loss (probe_model (\<lambda>i. unit_row) two_row (\<lambda>k. 0)) (probe_config 1) probe_rng
        (FloatTensor Float32 [0, 1]) probe_speeches = Inr (loss, losses, aux))
   \<and> conditioned_spkembed (probe_model (\<lambda>i. unit_row) two_row (\<lambda>k. 0)) (probe_config 1) probe_rng
        (FloatTensor Float32 [0, 1]) = Inr (\<lambda>i. normalize_row 2 two_row)"
proof -
  let ?m = "probe_model (\<lambda>i. unit_row) two_row (\<lambda>k. 0)"
  let ?c = "probe_config 1"
  have "0 < steps (model ?c)"
    by (simp add: probe_config_def)
  then obtain loss losses aux where
    h: "compute_loss ?m ?c probe_rng (FloatTensor Float32 [0, 1]) probe_speeches
          = Inr (loss, losses, aux)"
    using compute_loss_FloatTensor by blast
  obtain emb where emb: "conditioned_spkembed ?m ?c probe_rng (FloatTensor Float32 [0, 1]) = Inr emb"
    and a: "1 \<le> null_prob (train ?c) \<longrightarrow> (\<forall>i. emb i = normalize_row (spk ?m) (nullspk ?m))"
    using guidance_dropout_rows [OF h] by blast
  have "emb = (\<lambda>i. normalize_row 2 two_row)"
    using a by (auto simp: probe_config_def probe_model_def)
  then show ?thesis
    using h emb by blast
qed


end
